theory Spec2Isabelle
  imports Main "HOL-Library.Word"
begin

section \<open>Durations\<close>

text \<open>
  Go's \<open>time.Duration\<close> is an \<open>int64\<close> count of nanoseconds; arithmetic on it wraps.
  The unit constants are those of package \<open>time\<close>.
\<close>

type_synonym duration = "64 word"

definition Nanosecond :: duration where
  "Nanosecond = 1"

definition Microsecond :: duration where
  "Microsecond = 1000 * Nanosecond"

definition Millisecond :: duration where
  "Millisecond = 1000 * Microsecond"

definition Second :: duration where
  "Second = 1000 * Millisecond"

section \<open>Errors\<close>

text \<open>
  An \<open>error\<close> value is either produced outside this package (the driver, the operating
  system, the caller's operation: \<open>Foreign\<close>), the context package's deadline error, or built
  here by \<open>fmt.Errorf\<close>. \<open>Errorf\<close> keeps the format string, the verb applied to the error
  operand (\<open>%w\<close> wraps it, \<open>%v\<close> only prints it) and the operand, which may be nil.
  A call of \<open>fmt.Errorf\<close> or \<open>errors.New\<close> without an error operand is \<open>New\<close>.
\<close>

datatype verb = PercentW | PercentV

datatype error =
    Foreign nat
  | DeadlineExceeded
  | New string
  | Errorf string verb "error option"

text \<open>
  \<open>errors.Is\<close>: the target occurs on the chain of wrapped errors. Only an error built
  with \<open>%w\<close> has an inner error.
\<close>

fun errors_Is :: "error \<Rightarrow> error \<Rightarrow> bool" where
  "errors_Is (Errorf m PercentW (Some e)) t = (Errorf m PercentW (Some e) = t \<or> errors_Is e t)"
| "errors_Is e t = (e = t)"

section \<open>The driver, as the package sees it\<close>

text \<open>
  An element handle is opaque. What the browser answers during one attempt of a retry loop
  is an \<open>attempt\<close>: the reply to \<open>Element(selector)\<close>, to \<open>WaitVisible\<close>, to \<open>WaitStable\<close>
  and to \<open>Click\<close>. Each of these is called at most once per attempt, so a page is described
  by its replies per attempt index, together with its reply to \<open>Screenshot\<close>.
  A \<open>*rod.Page\<close> argument is a \<open>page option\<close>, \<open>None\<close> being nil.
\<close>

type_synonym element = nat

record attempt =
  locate :: "error + element"
  visible :: "error option"
  stable :: "error option"
  click :: "error option"

record page =
  attempts :: "nat \<Rightarrow> attempt"
  shot :: "error + nat list"

text \<open>
  The effects of a call, in the order they happen. \<open>Locate sel t\<close> is
  \<open>page.Context(ctx).Element(sel)\<close> under a context with timeout \<open>t\<close>.
\<close>

datatype event =
    Sleep duration
  | Locate string duration
  | WaitVisible
  | WaitStable duration
  | Click
  | BoundedRun duration
  | MkdirAll string
  | Screenshot
  | WriteFile string "nat list"

text \<open>
  A call either returns or panics: a method of the driver called on a nil page
  dereferences the nil pointer. The event of such a call is recorded, then the call panics.
\<close>

datatype 'a outcome = Returned 'a | Panicked

definition after :: "event list \<Rightarrow> 'a outcome \<times> event list \<Rightarrow> 'a outcome \<times> event list" where
  "after evs r = (fst r, evs @ snd r)"

section \<open>Retry policy\<close>

text \<open>
  \<open>RetryCount\<close> is a Go \<open>int\<close>: 64 bits on the platforms the driver runs on, read as
  two's complement.
\<close>

record RodOptions =
  Timeout :: duration
  StableDuration :: duration
  RetryCount :: "64 word"
  RetryDelay :: duration
  MustVisible :: bool
  MustStable :: bool
  MustWaitLoad :: bool

definition DefaultRodOptions :: RodOptions where
  "DefaultRodOptions = \<lparr>
     Timeout = 10 * Second,
     StableDuration = 200 * Millisecond,
     RetryCount = 3,
     RetryDelay = 500 * Millisecond,
     MustVisible = True,
     MustStable = True,
     MustWaitLoad = True \<rparr>"

section \<open>SafeClick\<close>

text \<open>
  The loop \<open>for i := 0; i <= opts.RetryCount; i++\<close> of \<open>SafeClick\<close>. Its state is the
  counter \<open>i\<close>, a 64-bit integer whose increment wraps, the number \<open>n\<close> of attempts made so
  far, which selects the page's replies, the current \<open>lastErr\<close>, and the effects \<open>tr\<close> so
  far. The comparisons read the counter as signed. The loop need not end: with
  \<open>RetryCount\<close> at the largest \<open>int\<close> the condition always holds, and a call that never
  returns is \<open>None\<close>. The visibility check is commented out in the source and the stability
  wait is unconditional.
\<close>

partial_function (option) SafeClick_loop ::
  "page option \<Rightarrow> string \<Rightarrow> RodOptions \<Rightarrow> 64 word \<Rightarrow> nat \<Rightarrow> error option \<Rightarrow> event list \<Rightarrow>
     (error option outcome \<times> event list) option"
where
  "SafeClick_loop pg selector opts i n lastErr tr =
     (if sint i \<le> sint (RetryCount opts) then
        (case pg of
           None \<Rightarrow>
             Some (Panicked,
               tr @ (if 0 < sint i then [Sleep (RetryDelay opts)] else [])
                  @ [Locate selector (Timeout opts)])
         | Some p \<Rightarrow>
            (case locate (attempts p n) of
               Inl err \<Rightarrow>
                 SafeClick_loop pg selector opts (i + 1) (Suc n)
                   (Some (Errorf ''element not found: %w'' PercentW (Some err)))
                   (tr @ (if 0 < sint i then [Sleep (RetryDelay opts)] else [])
                       @ [Locate selector (Timeout opts)])
             | Inr el \<Rightarrow>
                (case stable (attempts p n) of
                   Some err \<Rightarrow>
                     SafeClick_loop pg selector opts (i + 1) (Suc n)
                       (Some (Errorf ''element not stable: %w'' PercentW (Some err)))
                       (tr @ (if 0 < sint i then [Sleep (RetryDelay opts)] else [])
                           @ [Locate selector (Timeout opts), WaitStable (StableDuration opts)])
                 | None \<Rightarrow>
                    (case click (attempts p n) of
                       Some err \<Rightarrow>
                         SafeClick_loop pg selector opts (i + 1) (Suc n)
                           (Some (Errorf ''click failed: %w'' PercentW (Some err)))
                           (tr @ (if 0 < sint i then [Sleep (RetryDelay opts)] else [])
                               @ [Locate selector (Timeout opts),
                                  WaitStable (StableDuration opts), Click])
                     | None \<Rightarrow>
                         if lastErr = None then
                           Some (Returned None,
                             tr @ (if 0 < sint i then [Sleep (RetryDelay opts)] else [])
                                @ [Locate selector (Timeout opts),
                                   WaitStable (StableDuration opts), Click])
                         else
                           SafeClick_loop pg selector opts (i + 1) (Suc n) lastErr
                             (tr @ (if 0 < sint i then [Sleep (RetryDelay opts)] else [])
                                 @ [Locate selector (Timeout opts),
                                    WaitStable (StableDuration opts), Click])))))
      else Some (Returned (Some (Errorf ''all click attempts failed: %w'' PercentW lastErr)), tr))"

declare SafeClick_loop.simps [code]

definition SafeClick ::
  "page option \<Rightarrow> string \<Rightarrow> RodOptions option \<Rightarrow> (error option outcome \<times> event list) option"
where
  "SafeClick pg selector opts =
     (let opts = (case opts of None \<Rightarrow> DefaultRodOptions | Some opt \<Rightarrow> opt)
      in SafeClick_loop pg selector opts 0 0 None [])"

section \<open>SafeElement\<close>

text \<open>
  The loop of \<open>SafeElement\<close>, with the same state; the page was checked against nil before
  the loop is entered. Once an attempt passes its checks the function returns the element
  together with the current \<open>lastErr\<close>.
\<close>

partial_function (option) SafeElement_loop ::
  "page \<Rightarrow> string \<Rightarrow> RodOptions \<Rightarrow> 64 word \<Rightarrow> nat \<Rightarrow> error option \<Rightarrow> event list \<Rightarrow>
     ((element option \<times> error option) outcome \<times> event list) option"
where
  "SafeElement_loop p selector opts i n lastErr tr =
     (if sint i \<le> sint (RetryCount opts) then
        (case locate (attempts p n) of
           Inl err \<Rightarrow>
             SafeElement_loop p selector opts (i + 1) (Suc n)
               (Some (Errorf ''element not found: %w'' PercentW (Some err)))
               (tr @ (if 0 < sint i then [Sleep (RetryDelay opts)] else [])
                   @ [Locate selector (Timeout opts)])
         | Inr el \<Rightarrow>
             if MustVisible opts \<and> visible (attempts p n) \<noteq> None then
               SafeElement_loop p selector opts (i + 1) (Suc n)
                 (Some (Errorf ''element not visible: %w'' PercentW (visible (attempts p n))))
                 (tr @ (if 0 < sint i then [Sleep (RetryDelay opts)] else [])
                     @ [Locate selector (Timeout opts), WaitVisible])
             else if MustStable opts \<and> stable (attempts p n) \<noteq> None then
               SafeElement_loop p selector opts (i + 1) (Suc n)
                 (Some (Errorf ''element not stable: %w'' PercentW (stable (attempts p n))))
                 (tr @ (if 0 < sint i then [Sleep (RetryDelay opts)] else [])
                     @ [Locate selector (Timeout opts)]
                     @ (if MustVisible opts then [WaitVisible] else [])
                     @ [WaitStable (StableDuration opts)])
             else
               Some (Returned (Some el, lastErr),
                 tr @ (if 0 < sint i then [Sleep (RetryDelay opts)] else [])
                    @ [Locate selector (Timeout opts)]
                    @ (if MustVisible opts then [WaitVisible] else [])
                    @ (if MustStable opts then [WaitStable (StableDuration opts)] else [])))
      else Some (Returned (None,
             Some (Errorf ''all attempts to get element failed: %w'' PercentW lastErr)), tr))"

declare SafeElement_loop.simps [code]

definition SafeElement ::
  "page option \<Rightarrow> string \<Rightarrow> RodOptions option \<Rightarrow>
     ((element option \<times> error option) outcome \<times> event list) option"
where
  "SafeElement pg selector opts =
     (case pg of
        None \<Rightarrow> Some (Returned (None, Some (New ''rod.Page is nil'')), [])
      | Some p \<Rightarrow>
          (let opts = (case opts of None \<Rightarrow> DefaultRodOptions | Some opt \<Rightarrow> opt)
           in SafeElement_loop p selector opts 0 0 None []))"

section \<open>The bounded runner\<close>

text \<open>
  What the caller's operation does when it is run: it returns after some number of
  nanoseconds with its result, or it never returns.
\<close>

datatype run = Finishes nat "error option" | Blocks

text \<open>
  \<open>timeLimit\<close> starts the operation on a goroutine that sends on \<open>errorChan\<close> only when the
  operation's error is not nil, and selects between that channel and the context's \<open>Done\<close>
  channel. The channel case can be taken only if an error was sent, which is ready at the
  operation's finishing time. \<open>Done\<close> is ready from the deadline on, and at once when the
  deadline has already passed at the call. When both become ready at the same instant
  \<open>select\<close> chooses either: \<open>chan_first\<close> is that choice.
\<close>

definition timeLimit :: "bool \<Rightarrow> duration \<Rightarrow> run \<Rightarrow> error option" where
  "timeLimit chan_first timeout f =
     (let timed_out = Some (Errorf ''operation timed out: %v'' PercentV (Some DeadlineExceeded))
      in case f of
           Blocks \<Rightarrow> timed_out
         | Finishes d None \<Rightarrow> timed_out
         | Finishes d (Some err) \<Rightarrow>
             if int d < sint timeout \<or> (int d = max 0 (sint timeout) \<and> chan_first)
             then Some err else timed_out)"

section \<open>RodOperationWrapper\<close>

record RodOperationWrapperOptions =
  TimeoutDuration :: "duration option"
  Path :: "string option"
  Name :: "string option"

text \<open>
  What \<open>RodOperationWrapper\<close> takes from outside its own text: the package constants
  \<open>DefaultScreenshotPath\<close> and \<open>DefaultTimeoutDuration\<close>, the formatted current time, the
  choice of \<open>select\<close>, \<open>filepath.Dir\<close>, and the replies of \<open>os.MkdirAll\<close> and
  \<open>os.WriteFile\<close>.
\<close>

record world =
  DefaultScreenshotPath :: string
  DefaultTimeoutDuration :: duration
  now :: string
  chan_first :: bool
  filepath_Dir :: "string \<Rightarrow> string"
  os_MkdirAll :: "string \<Rightarrow> error option"
  os_WriteFile :: "string \<Rightarrow> nat list \<Rightarrow> error option"

definition RodOperationWrapper ::
  "world \<Rightarrow> page option \<Rightarrow> run \<Rightarrow> RodOperationWrapperOptions option \<Rightarrow>
     error option outcome \<times> event list"
where
  "RodOperationWrapper w pg operation opts =
     (let timeout = (case opts of None \<Rightarrow> None | Some opt \<Rightarrow> TimeoutDuration opt);
          path = (case opts of None \<Rightarrow> None | Some opt \<Rightarrow> Path opt);
          name = (case opts of None \<Rightarrow> None | Some opt \<Rightarrow> Name opt);
          path = (case path of None \<Rightarrow> DefaultScreenshotPath w | Some s \<Rightarrow> s);
          timestamp = now w;
          name = (case name of None \<Rightarrow> timestamp | Some s \<Rightarrow> s @ ''_'' @ timestamp);
          timeout = (case timeout of None \<Rightarrow> DefaultTimeoutDuration w | Some t \<Rightarrow> t);
          limit = timeout * Second
      in after [BoundedRun limit]
           (case timeLimit (chan_first w) limit operation of
              None \<Rightarrow> (Returned None, [])
            | Some err \<Rightarrow>
                (let screenshotName = path @ ''/'' @ name @ ''.png'';
                     dir = filepath_Dir w screenshotName
                 in after [MkdirAll dir]
                      (case os_MkdirAll w dir of
                         Some e \<Rightarrow>
                           (Returned (Some (Errorf ''failed to create screenshot directory: %w''
                              PercentW (Some e))), [])
                       | None \<Rightarrow>
                           after [Screenshot]
                             (case pg of
                                None \<Rightarrow> (Panicked, [])
                              | Some p \<Rightarrow>
                                  (case shot p of
                                     Inl screenErr \<Rightarrow>
                                       (Returned (Some (Errorf ''failed to capture screenshot: %w''
                                          PercentW (Some screenErr))), [])
                                   | Inr screenshotData \<Rightarrow>
                                       after [WriteFile screenshotName screenshotData]
                                         (case os_WriteFile w screenshotName screenshotData of
                                            Some fileErr \<Rightarrow>
                                              (Returned (Some (Errorf ''failed to save screenshot: %v''
                                                 PercentV (Some fileErr))), [])
                                          | None \<Rightarrow> (Returned (Some err), []))))))))"

section \<open>Observations on a call's effects\<close>

text \<open>Counting the locate attempts, sleeps and waits among the effects of a call.\<close>

fun is_Locate :: "event \<Rightarrow> bool" where
  "is_Locate (Locate s t) = True"
| "is_Locate _ = False"

fun is_Sleep :: "event \<Rightarrow> bool" where
  "is_Sleep (Sleep d) = True"
| "is_Sleep _ = False"

fun is_WaitStable :: "event \<Rightarrow> bool" where
  "is_WaitStable (WaitStable d) = True"
| "is_WaitStable _ = False"

definition locate_count :: "event list \<Rightarrow> nat" where
  "locate_count tr = length (filter is_Locate tr)"

definition sleep_count :: "event list \<Rightarrow> nat" where
  "sleep_count tr = length (filter is_Sleep tr)"

definition stable_wait_count :: "event list \<Rightarrow> nat" where
  "stable_wait_count tr = length (filter is_WaitStable tr)"

definition visible_wait_count :: "event list \<Rightarrow> nat" where
  "visible_wait_count tr = length (filter (\<lambda>e. e = WaitVisible) tr)"

text \<open>
  Every stability wait comes directly after a visibility wait: \<open>follows prev tr\<close> checks it
  for the events \<open>tr\<close> that come after the event \<open>prev\<close>.
\<close>

fun follows :: "event option \<Rightarrow> event list \<Rightarrow> bool" where
  "follows prev [] = True"
| "follows prev (e # tr) = ((is_WaitStable e \<longrightarrow> prev = Some WaitVisible) \<and> follows (Some e) tr)"

definition visible_before_stable :: "event list \<Rightarrow> bool" where
  "visible_before_stable tr = follows None tr"

text \<open>
  The number of attempts whose locate step found the element, among the \<open>n\<close> attempts
  from index \<open>k\<close> on, and among the first \<open>n\<close> attempts.
\<close>

definition located_from :: "page \<Rightarrow> nat \<Rightarrow> nat \<Rightarrow> nat" where
  "located_from p k n = length (filter (\<lambda>i. \<not> isl (locate (attempts p i))) [k..<k + n])"

definition located_among :: "page \<Rightarrow> nat \<Rightarrow> nat" where
  "located_among p n = located_from p 0 n"

text \<open>The deadline handed to the bounded runner: the first \<open>BoundedRun\<close> of the effects.\<close>

fun bounded_run_limit :: "event list \<Rightarrow> duration option" where
  "bounded_run_limit [] = None"
| "bounded_run_limit (BoundedRun l # tr) = Some l"
| "bounded_run_limit (e # tr) = bounded_run_limit tr"

text \<open>
  The error an attempt that fails leaves in \<open>lastErr\<close> (\<open>None\<close> when the attempt passes
  every step), read off the assignments to \<open>lastErr\<close> in the two loops.
\<close>

definition click_failure :: "attempt \<Rightarrow> error option" where
  "click_failure a =
     (case locate a of
        Inl err \<Rightarrow> Some (Errorf ''element not found: %w'' PercentW (Some err))
      | Inr el \<Rightarrow>
          (case stable a of
             Some err \<Rightarrow> Some (Errorf ''element not stable: %w'' PercentW (Some err))
           | None \<Rightarrow>
               (case click a of
                  Some err \<Rightarrow> Some (Errorf ''click failed: %w'' PercentW (Some err))
                | None \<Rightarrow> None)))"

definition element_failure :: "RodOptions \<Rightarrow> attempt \<Rightarrow> error option" where
  "element_failure opts a =
     (case locate a of
        Inl err \<Rightarrow> Some (Errorf ''element not found: %w'' PercentW (Some err))
      | Inr el \<Rightarrow>
          if MustVisible opts \<and> visible a \<noteq> None
          then Some (Errorf ''element not visible: %w'' PercentW (visible a))
          else if MustStable opts \<and> stable a \<noteq> None
          then Some (Errorf ''element not stable: %w'' PercentW (stable a))
          else None)"

text \<open>
  One attempt as the specification lists its steps: locate; if \<open>mustVisible\<close>, wait for
  visibility; if \<open>mustStable\<close>, wait for stability; act. A step that fails ends the attempt.
  \<open>act\<close> is what the action adds: a click for the click variant, nothing for the locate
  variant, which only returns the handle.
\<close>

definition steps :: "RodOptions \<Rightarrow> string \<Rightarrow> event list \<Rightarrow> attempt \<Rightarrow> event list" where
  "steps opts selector act a =
     Locate selector (Timeout opts) #
     (if isl (locate a) then []
      else (if MustVisible opts then [WaitVisible] else []) @
           (if MustVisible opts \<and> visible a \<noteq> None then []
            else (if MustStable opts then [WaitStable (StableDuration opts)] else []) @
                 (if MustStable opts \<and> stable a \<noteq> None then [] else act)))"

text \<open>
  The effects of the attempts \<open>n\<close> to \<open>n + k\<close> of a page, each attempt contributing the
  events \<open>f\<close> gives for it, with a sleep of \<open>d\<close> between two attempts; and those of the
  attempts \<open>0\<close> to \<open>k\<close>.
\<close>

fun attempts_from :: "(attempt \<Rightarrow> event list) \<Rightarrow> duration \<Rightarrow> page \<Rightarrow> nat \<Rightarrow> nat \<Rightarrow> event list" where
  "attempts_from f d p n 0 = f (attempts p n)"
| "attempts_from f d p n (Suc k) = f (attempts p n) @ Sleep d # attempts_from f d p (Suc n) k"

definition run_events :: "(attempt \<Rightarrow> event list) \<Rightarrow> duration \<Rightarrow> page \<Rightarrow> nat \<Rightarrow> event list" where
  "run_events f d p k = attempts_from f d p 0 k"

section \<open>Concrete pages and environments\<close>

definition found :: attempt where
  "found = \<lparr> locate = Inr 7, visible = None, stable = None, click = None \<rparr>"

definition missing :: attempt where
  "missing = \<lparr> locate = Inl (Foreign 1), visible = None, stable = None, click = None \<rparr>"

text \<open>The default policy with both optional checks switched off.\<close>

definition no_checks :: RodOptions where
  "no_checks = DefaultRodOptions \<lparr> MustVisible := False, MustStable := False \<rparr>"

text \<open>A page whose element is there from the start, and one where it appears after the
  first attempt.\<close>

definition ready_page :: page where
  "ready_page = \<lparr> attempts = (\<lambda>i. found), shot = Inr [137, 80, 78, 71] \<rparr>"

definition late_page :: page where
  "late_page = \<lparr> attempts = (\<lambda>i. if i = 0 then missing else found), shot = Inr [137, 80, 78, 71] \<rparr>"

text \<open>A page whose element is never found, with a different error on each attempt, and a
  page whose element is missing on the first three attempts and unstable afterwards.\<close>

definition fading_page :: page where
  "fading_page = \<lparr>
     attempts = (\<lambda>i. \<lparr> locate = Inl (Foreign (10 + i)), visible = None, stable = None, click = None \<rparr>),
     shot = Inr [137, 80, 78, 71] \<rparr>"

definition unsteady_page :: page where
  "unsteady_page = \<lparr>
     attempts = (\<lambda>i. if i < 3
        then \<lparr> locate = Inl (Foreign (10 + i)), visible = None, stable = None, click = None \<rparr>
        else \<lparr> locate = Inr 7, visible = None, stable = Some (Foreign (20 + i)), click = None \<rparr>),
     shot = Inr [137, 80, 78, 71] \<rparr>"

text \<open>An environment whose file system accepts everything, one where no directory can be
  created, and one where no file can be written. \<open>filepath.Dir\<close> is given for clean paths only: all before the last slash.\<close>

definition writable_world :: world where
  "writable_world = \<lparr>
     DefaultScreenshotPath = ''screenshots'',
     DefaultTimeoutDuration = 30,
     now = ''2024-01-02_03-04-05'',
     chan_first = True,
     filepath_Dir = (\<lambda>s. rev (tl (dropWhile (\<lambda>c. c \<noteq> CHR ''/'') (rev s)))),
     os_MkdirAll = (\<lambda>dir. None),
     os_WriteFile = (\<lambda>name data. None) \<rparr>"

definition readonly_world :: world where
  "readonly_world = writable_world \<lparr> os_MkdirAll := (\<lambda>dir. Some (Foreign 13)) \<rparr>"

definition full_world :: world where
  "full_world = writable_world \<lparr> os_WriteFile := (\<lambda>name data. Some (Foreign 28)) \<rparr>"

section \<open>Basic facts\<close>

lemma fst_after [simp]: "fst (after evs r) = fst r"
  by (simp add: after_def)

lemma snd_after [simp]: "snd (after evs r) = evs @ snd r"
  by (simp add: after_def)

lemma count_simps [simp]:
  "locate_count [] = 0" "locate_count (e # tr) = (if is_Locate e then 1 else 0) + locate_count tr"
  "locate_count (xs @ ys) = locate_count xs + locate_count ys"
  "sleep_count [] = 0" "sleep_count (e # tr) = (if is_Sleep e then 1 else 0) + sleep_count tr"
  "sleep_count (xs @ ys) = sleep_count xs + sleep_count ys"
  by (simp_all add: locate_count_def sleep_count_def)

lemma wait_count_simps [simp]:
  "stable_wait_count [] = 0"
  "stable_wait_count (e # tr) = (if is_WaitStable e then 1 else 0) + stable_wait_count tr"
  "stable_wait_count (xs @ ys) = stable_wait_count xs + stable_wait_count ys"
  "visible_wait_count [] = 0"
  "visible_wait_count (e # tr) = (if e = WaitVisible then 1 else 0) + visible_wait_count tr"
  "visible_wait_count (xs @ ys) = visible_wait_count xs + visible_wait_count ys"
  by (simp_all add: stable_wait_count_def visible_wait_count_def)

lemma located_from_simps [simp]:
  "located_from p k 0 = 0"
  "located_from p k (Suc n) =
     (if isl (locate (attempts p k)) then 0 else 1) + located_from p (Suc k) n"
proof -
  have "[k..<k + Suc n] = k # [Suc k..<Suc k + n]"
    using upt_conv_Cons [of k "k + Suc n"] by simp
  then show "located_from p k (Suc n) =
     (if isl (locate (attempts p k)) then 0 else 1) + located_from p (Suc k) n"
    by (simp add: located_from_def)
qed (simp add: located_from_def)

lemma follows_append:
  "follows prev (xs @ ys) =
     (follows prev xs \<and> follows (if xs = [] then prev else Some (last xs)) ys)"
  by (induction xs arbitrary: prev) auto

lemma sint_Second: "sint Second = 1000000000"
  by (simp add: Second_def Millisecond_def Microsecond_def Nanosecond_def)

lemma sint_succ:
  fixes i :: "64 word"
  assumes "sint i < 9223372036854775807"
  shows "sint (i + 1) = sint i + 1"
proof -
  have "- (2 ^ 63) \<le> sint i" using sint_ge [of i] by simp
  then have "signed_take_bit 63 (sint i + 1) = sint i + 1"
    using assms by (simp add: signed_take_bit_int_eq_self_iff)
  then show ?thesis by (simp add: sint_word_ariths)
qed

lemma sint_le_top: "sint (i :: 64 word) \<le> 9223372036854775807"
  using sint_lt [of i] by simp

section \<open>The default policy\<close>

text \<open>
  C8. The default policy has a timeout of 10 seconds, a stable duration of 200 milliseconds,
  a retry count of 3, a retry delay of 500 milliseconds, and requires visibility, stability
  and a loaded page. Durations are read in nanoseconds.
\<close>

theorem DefaultRodOptions_values:
  "Timeout DefaultRodOptions = 10 * Second \<and> sint (Timeout DefaultRodOptions) = 10 * 10 ^ 9
   \<and> StableDuration DefaultRodOptions = 200 * Millisecond
   \<and> sint (StableDuration DefaultRodOptions) = 200 * 10 ^ 6
   \<and> RetryCount DefaultRodOptions = 3
   \<and> RetryDelay DefaultRodOptions = 500 * Millisecond
   \<and> sint (RetryDelay DefaultRodOptions) = 500 * 10 ^ 6
   \<and> MustVisible DefaultRodOptions \<and> MustStable DefaultRodOptions
   \<and> MustWaitLoad DefaultRodOptions"
  by (simp add: DefaultRodOptions_def Second_def Millisecond_def Microsecond_def Nanosecond_def)

text \<open>
  C9. A nil options argument of \<open>SafeClick\<close> or \<open>SafeElement\<close> is replaced by the default
  policy before the first attempt: the call behaves as the call with the default policy.
\<close>

theorem nil_options_mean_default:
  "SafeClick pg selector None = SafeClick pg selector (Some DefaultRodOptions)
   \<and> SafeElement pg selector None = SafeElement pg selector (Some DefaultRodOptions)"
  by (simp add: SafeClick_def SafeElement_def split: option.split)

lemma SafeElement_nil_page:
  "SafeElement None selector opts = Some (Returned (None, Some (New ''rod.Page is nil'')), [])"
  by (simp add: SafeElement_def)

section \<open>The bounded runner\<close>

lemma timeLimit_never_nil: "timeLimit c timeout f \<noteq> None"
  by (simp add: timeLimit_def Let_def split: run.split option.split)

lemma timeLimit_failure_in_time:
  "int d < sint timeout \<Longrightarrow> timeLimit c timeout (Finishes d (Some err)) = Some err"
  by (simp add: timeLimit_def)

lemma timeLimit_deadline_first:
  "max 0 (sint timeout) < int d \<Longrightarrow>
   timeLimit c timeout (Finishes d r) =
     Some (Errorf ''operation timed out: %v'' PercentV (Some DeadlineExceeded))"
  by (auto simp: timeLimit_def Let_def split: option.split)

text \<open>
  With a deadline that has already passed, an operation that fails at once races with the
  \<open>Done\<close> channel, and \<open>select\<close> may deliver either.
\<close>

lemma timeLimit_passed_deadline:
  "timeLimit True (- 1) (Finishes 0 (Some err)) = Some err"
  "timeLimit False (- 1) (Finishes 0 (Some err)) =
     Some (Errorf ''operation timed out: %v'' PercentV (Some DeadlineExceeded))"
  by (simp_all add: timeLimit_def)

text \<open>
  C1. The bounded runner should return the operation's own result, success included, when
  the operation completes strictly before the deadline. Run with a deadline of one second
  on an operation that succeeds at once, \<open>timeLimit\<close> returns the timeout error, whatever
  \<open>select\<close> chooses: a nil result is never sent on the channel.
\<close>

theorem timeLimit_success_times_out:
  "timeLimit True Second (Finishes 0 None) =
     Some (Errorf ''operation timed out: %v'' PercentV (Some DeadlineExceeded))
   \<and> timeLimit False Second (Finishes 0 None) =
     Some (Errorf ''operation timed out: %v'' PercentV (Some DeadlineExceeded))"
  by (simp add: timeLimit_def)

section \<open>One turn of the loops\<close>

text \<open>
  What the loops do with one attempt: leave when the counter has passed the retry count,
  go on after a failed attempt, and return or go on after an attempt that passed.
\<close>

lemma SafeClick_loop_done:
  "\<not> sint i \<le> sint (RetryCount opts) \<Longrightarrow>
   SafeClick_loop pg selector opts i n lastErr tr =
     Some (Returned (Some (Errorf ''all click attempts failed: %w'' PercentW lastErr)), tr)"
  by (simp add: SafeClick_loop.simps [of pg selector opts i n lastErr tr])

lemma SafeClick_loop_failed:
  assumes "sint i \<le> sint (RetryCount opts)" and "click_failure (attempts p n) \<noteq> None"
  shows "SafeClick_loop (Some p) selector opts i n lastErr tr =
           SafeClick_loop (Some p) selector opts (i + 1) (Suc n) (click_failure (attempts p n))
             (tr @ (if 0 < sint i then [Sleep (RetryDelay opts)] else []) @
              steps (opts \<lparr> MustVisible := False, MustStable := True \<rparr>) selector [Click]
                (attempts p n))"
  using assms
  by (auto simp: SafeClick_loop.simps [of "Some p" selector opts i n lastErr tr]
      click_failure_def steps_def split: sum.splits option.splits)

lemma SafeClick_loop_passed:
  assumes "sint i \<le> sint (RetryCount opts)" and "click_failure (attempts p n) = None"
  shows "SafeClick_loop (Some p) selector opts i n lastErr tr =
           (if lastErr = None then
              Some (Returned None,
                tr @ (if 0 < sint i then [Sleep (RetryDelay opts)] else []) @
                steps (opts \<lparr> MustVisible := False, MustStable := True \<rparr>) selector [Click]
                  (attempts p n))
            else
              SafeClick_loop (Some p) selector opts (i + 1) (Suc n) lastErr
                (tr @ (if 0 < sint i then [Sleep (RetryDelay opts)] else []) @
                 steps (opts \<lparr> MustVisible := False, MustStable := True \<rparr>) selector [Click]
                   (attempts p n)))"
  using assms
  by (auto simp: SafeClick_loop.simps [of "Some p" selector opts i n lastErr tr]
      click_failure_def steps_def split: sum.splits option.splits)

lemma SafeElement_loop_done:
  "\<not> sint i \<le> sint (RetryCount opts) \<Longrightarrow>
   SafeElement_loop p selector opts i n lastErr tr =
     Some (Returned (None,
       Some (Errorf ''all attempts to get element failed: %w'' PercentW lastErr)), tr)"
  by (simp add: SafeElement_loop.simps [of p selector opts i n lastErr tr])

lemma SafeElement_loop_failed:
  assumes "sint i \<le> sint (RetryCount opts)" and "element_failure opts (attempts p n) \<noteq> None"
  shows "SafeElement_loop p selector opts i n lastErr tr =
           SafeElement_loop p selector opts (i + 1) (Suc n) (element_failure opts (attempts p n))
             (tr @ (if 0 < sint i then [Sleep (RetryDelay opts)] else []) @
              steps opts selector [] (attempts p n))"
  using assms
  by (auto simp: SafeElement_loop.simps [of p selector opts i n lastErr tr]
      element_failure_def steps_def split: sum.splits if_splits)

lemma SafeElement_loop_passed:
  assumes "sint i \<le> sint (RetryCount opts)" and "element_failure opts (attempts p n) = None"
  shows "SafeElement_loop p selector opts i n lastErr tr =
           Some (Returned (Some (projr (locate (attempts p n))), lastErr),
             tr @ (if 0 < sint i then [Sleep (RetryDelay opts)] else []) @
             steps opts selector [] (attempts p n))"
  using assms
  by (auto simp: SafeElement_loop.simps [of p selector opts i n lastErr tr]
      element_failure_def steps_def split: sum.splits if_splits)

section \<open>Success after a failed attempt\<close>

text \<open>An attempt that passes every step ends the call with success when it is the first.\<close>

lemma SafeClick_first_attempt:
  assumes "0 \<le> sint (RetryCount opts)" and "click_failure (attempts p 0) = None"
  shows "SafeClick (Some p) selector (Some opts) =
           Some (Returned None,
             [Locate selector (Timeout opts), WaitStable (StableDuration opts), Click])"
proof -
  have le: "sint (0 :: 64 word) \<le> sint (RetryCount opts)" using assms(1) by simp
  have "\<not> isl (locate (attempts p 0))" "stable (attempts p 0) = None"
    using assms(2) by (auto simp: click_failure_def split: sum.splits option.splits)
  then show ?thesis
    by (simp add: SafeClick_def SafeClick_loop_passed [OF le assms(2)] steps_def)
qed

lemma SafeElement_first_attempt:
  assumes "0 \<le> sint (RetryCount opts)" and "element_failure opts (attempts p 0) = None"
  shows "map_option fst (SafeElement (Some p) selector (Some opts)) =
           Some (Returned (Some (projr (locate (attempts p 0))), None))"
proof -
  have le: "sint (0 :: 64 word) \<le> sint (RetryCount opts)" using assms(1) by simp
  show ?thesis
    by (simp add: SafeElement_def SafeElement_loop_passed [OF le assms(2)])
qed

text \<open>
  Once an attempt has failed, \<open>lastErr\<close> stays set: \<open>SafeClick\<close> cannot return success any
  more, and \<open>SafeElement\<close> cannot return a nil error.
\<close>

lemma SafeClick_loop_never_recovers:
  assumes "SafeClick_loop pg selector opts i n lastErr tr = Some y"
  shows "lastErr \<noteq> None \<longrightarrow> fst y \<noteq> Returned None"
  by (rule SafeClick_loop.raw_induct
        [where P = "\<lambda>pg selector opts i n lastErr tr y. lastErr \<noteq> None \<longrightarrow> fst y \<noteq> Returned None",
         OF _ assms])
     (auto split: if_splits option.splits sum.splits)

lemma SafeElement_loop_keeps_error:
  assumes "SafeElement_loop p selector opts i n lastErr tr = Some y"
  shows "lastErr \<noteq> None \<longrightarrow> (\<forall>el err. fst y = Returned (el, err) \<longrightarrow> err \<noteq> None)"
  by (rule SafeElement_loop.raw_induct
        [where P = "\<lambda>p selector opts i n lastErr tr y.
           lastErr \<noteq> None \<longrightarrow> (\<forall>el err. fst y = Returned (el, err) \<longrightarrow> err \<noteq> None)",
         OF _ assms])
     (auto split: if_splits option.splits sum.splits)

text \<open>
  C2. \<open>SafeClick\<close> should return success right after the first attempt on which every step
  succeeds. With two retries on a page whose element appears after the first attempt, the
  second attempt clicks, the third attempt clicks again, and the call returns the
  aggregated error that wraps the first attempt's failure.
\<close>

theorem SafeClick_late_success_is_lost:
  "SafeClick (Some late_page) ''#submit'' (Some (DefaultRodOptions \<lparr> RetryCount := 2 \<rparr>)) =
     Some (Returned (Some (Errorf ''all click attempts failed: %w'' PercentW
        (Some (Errorf ''element not found: %w'' PercentW (Some (Foreign 1)))))),
      [Locate ''#submit'' 10000000000,
       Sleep 500000000, Locate ''#submit'' 10000000000, WaitStable 200000000, Click,
       Sleep 500000000, Locate ''#submit'' 10000000000, WaitStable 200000000, Click])"
  by code_simp

text \<open>
  C5. A call of \<open>SafeElement\<close> in which some attempt passes all enabled checks should return
  the element with a nil error. With one retry on a page whose element appears after the
  first attempt, the call returns the element together with the first attempt's error.
\<close>

theorem SafeElement_late_success_carries_error:
  "SafeElement (Some late_page) ''#submit'' (Some (DefaultRodOptions \<lparr> RetryCount := 1 \<rparr>)) =
     Some (Returned (Some 7, Some (Errorf ''element not found: %w'' PercentW (Some (Foreign 1)))),
      [Locate ''#submit'' 10000000000,
       Sleep 500000000, Locate ''#submit'' 10000000000, WaitVisible, WaitStable 200000000])"
  by code_simp

section \<open>Nil pages\<close>

text \<open>
  C3. Every entry point should answer a nil page with a precondition error, before any
  attempt, wait or driver call. \<open>SafeClick\<close> on a nil page starts its first locate step
  and panics there; \<open>RodOperationWrapper\<close> on a nil page runs the operation, creates the
  screenshot directory and panics in the screenshot call.
\<close>

theorem nil_page_not_rejected:
  "SafeClick None ''#submit'' None = Some (Panicked, [Locate ''#submit'' 10000000000])
   \<and> RodOperationWrapper writable_world None (Finishes 0 (Some (Foreign 2))) None =
       (Panicked, [BoundedRun 30000000000, MkdirAll ''screenshots'', Screenshot])"
  by code_simp

section \<open>Runs of attempts\<close>

text \<open>What one attempt contributes\<close>

lemma steps_counts:
  assumes "act = [] \<or> act = [Click]"
  shows "locate_count (steps opts selector act a) = 1"
    and "sleep_count (steps opts selector act a) = 0"
  using assms by (auto simp: steps_def)

lemma steps_visible:
  assumes "MustVisible opts" and "act = [] \<or> act = [Click]"
  shows "visible_wait_count (steps opts selector act a) = (if isl (locate a) then 0 else 1)"
    and "follows prev (steps opts selector act a)"
  using assms by (auto simp: steps_def)

lemma steps_click_policy:
  assumes "act = [] \<or> act = [Click]"
  shows "WaitVisible \<notin> set (steps (opts \<lparr> MustVisible := False, MustStable := True \<rparr>) selector act a)"
    and "stable_wait_count (steps (opts \<lparr> MustVisible := False, MustStable := True \<rparr>) selector act a) =
           (if isl (locate a) then 0 else 1)"
  using assms by (auto simp: steps_def)

lemma steps_no_checks:
  assumes "\<not> MustVisible opts" and "\<not> MustStable opts"
  shows "steps opts selector [] a = [Locate selector (Timeout opts)]"
  using assms by (simp add: steps_def)

lemma element_failure_no_checks:
  assumes "\<not> MustVisible opts" and "\<not> MustStable opts"
  shows "element_failure opts a = None \<longleftrightarrow> \<not> isl (locate a)"
  using assms by (cases "locate a") (simp_all add: element_failure_def)

text \<open>What a run of attempts contributes\<close>

lemma attempts_from_counts:
  assumes "\<And>a. locate_count (f a) = 1" and "\<And>a. sleep_count (f a) = 0"
  shows "locate_count (attempts_from f d p n k) = Suc k"
    and "sleep_count (attempts_from f d p n k) = k"
  using assms by (induction k arbitrary: n) simp_all

lemma attempts_from_visible:
  assumes "\<And>a. visible_wait_count (f a) = (if isl (locate a) then 0 else 1)"
  shows "visible_wait_count (attempts_from f d p n k) = located_from p n (Suc k)"
  using assms by (induction k arbitrary: n) simp_all

lemma attempts_from_stable:
  assumes "\<And>a. stable_wait_count (f a) = (if isl (locate a) then 0 else 1)"
  shows "stable_wait_count (attempts_from f d p n k) = located_from p n (Suc k)"
  using assms by (induction k arbitrary: n) simp_all

lemma attempts_from_follows:
  assumes "\<And>a prev. follows prev (f a)"
  shows "follows prev (attempts_from f d p n k)"
  using assms by (induction k arbitrary: n prev) (simp_all add: follows_append)

lemma attempts_from_no_visible:
  assumes "\<And>a. WaitVisible \<notin> set (f a)"
  shows "WaitVisible \<notin> set (attempts_from f d p n k)"
  using assms by (induction k arbitrary: n) simp_all

lemma attempts_from_single:
  "attempts_from (\<lambda>a. [e]) d p n k = e # concat (replicate k [Sleep d, e])"
  by (induction k arbitrary: n) simp_all

lemma SafeClick_loop_exhausted:
  assumes "sint (RetryCount opts) < 9223372036854775807"
    and "sint i = int n" and "int n + int k = sint (RetryCount opts)"
    and "\<forall>j \<le> k. click_failure (attempts p (n + j)) \<noteq> None"
  shows "SafeClick_loop (Some p) selector opts i n lastErr tr =
           Some (Returned (Some (Errorf ''all click attempts failed: %w'' PercentW
                   (click_failure (attempts p (n + k))))),
             tr @ (if 0 < sint i then [Sleep (RetryDelay opts)] else []) @
             attempts_from (steps (opts \<lparr> MustVisible := False, MustStable := True \<rparr>) selector [Click])
               (RetryDelay opts) p n k)"
  using assms(2-)
proof (induction k arbitrary: i n lastErr tr)
  case 0
  then have le: "sint i \<le> sint (RetryCount opts)" and small: "sint i < 9223372036854775807"
    using assms(1) by simp_all
  have fail: "click_failure (attempts p n) \<noteq> None" using "0.prems"(3) by simp
  have "\<not> sint (i + 1) \<le> sint (RetryCount opts)"
    using sint_succ [OF small] "0.prems"(1,2) by simp
  then show ?case
    by (simp add: SafeClick_loop_failed [OF le fail] SafeClick_loop_done)
next
  case (Suc k)
  then have le: "sint i \<le> sint (RetryCount opts)" and small: "sint i < 9223372036854775807"
    using assms(1) by simp_all
  have fail: "click_failure (attempts p n) \<noteq> None" using Suc.prems(3) by force
  have next_i: "sint (i + 1) = int (Suc n)"
    using sint_succ [OF small] Suc.prems(1) by simp
  have next_k: "int (Suc n) + int k = sint (RetryCount opts)"
    using Suc.prems(2) by simp
  have rest: "\<forall>j \<le> k. click_failure (attempts p (Suc n + j)) \<noteq> None"
    using Suc.prems(3) by (metis Suc_le_mono add_Suc_shift)
  show ?case
    using Suc.IH [OF next_i next_k rest] next_i
    by (simp add: SafeClick_loop_failed [OF le fail])
qed

lemma SafeElement_loop_exhausted:
  assumes "sint (RetryCount opts) < 9223372036854775807"
    and "sint i = int n" and "int n + int k = sint (RetryCount opts)"
    and "\<forall>j \<le> k. element_failure opts (attempts p (n + j)) \<noteq> None"
  shows "SafeElement_loop p selector opts i n lastErr tr =
           Some (Returned (None, Some (Errorf ''all attempts to get element failed: %w'' PercentW
                   (element_failure opts (attempts p (n + k))))),
             tr @ (if 0 < sint i then [Sleep (RetryDelay opts)] else []) @
             attempts_from (steps opts selector []) (RetryDelay opts) p n k)"
  using assms(2-)
proof (induction k arbitrary: i n lastErr tr)
  case 0
  then have le: "sint i \<le> sint (RetryCount opts)" and small: "sint i < 9223372036854775807"
    using assms(1) by simp_all
  have fail: "element_failure opts (attempts p n) \<noteq> None" using "0.prems"(3) by simp
  have "\<not> sint (i + 1) \<le> sint (RetryCount opts)"
    using sint_succ [OF small] "0.prems"(1,2) by simp
  then show ?case
    by (simp add: SafeElement_loop_failed [OF le fail] SafeElement_loop_done)
next
  case (Suc k)
  then have le: "sint i \<le> sint (RetryCount opts)" and small: "sint i < 9223372036854775807"
    using assms(1) by simp_all
  have fail: "element_failure opts (attempts p n) \<noteq> None" using Suc.prems(3) by force
  have next_i: "sint (i + 1) = int (Suc n)"
    using sint_succ [OF small] Suc.prems(1) by simp
  have next_k: "int (Suc n) + int k = sint (RetryCount opts)"
    using Suc.prems(2) by simp
  have rest: "\<forall>j \<le> k. element_failure opts (attempts p (Suc n + j)) \<noteq> None"
    using Suc.prems(3) by (metis Suc_le_mono add_Suc_shift)
  show ?case
    using Suc.IH [OF next_i next_k rest] next_i
    by (simp add: SafeElement_loop_failed [OF le fail])
qed

lemma SafeElement_loop_first_pass:
  assumes "sint i = int n" and "int n + int k \<le> sint (RetryCount opts)"
    and "\<forall>j < k. element_failure opts (attempts p (n + j)) \<noteq> None"
    and "element_failure opts (attempts p (n + k)) = None"
  shows "SafeElement_loop p selector opts i n lastErr tr =
           Some (Returned (Some (projr (locate (attempts p (n + k)))),
                   (if k = 0 then lastErr else element_failure opts (attempts p (n + k - 1)))),
             tr @ (if 0 < sint i then [Sleep (RetryDelay opts)] else []) @
             attempts_from (steps opts selector []) (RetryDelay opts) p n k)"
  using assms
proof (induction k arbitrary: i n lastErr tr)
  case 0
  then have le: "sint i \<le> sint (RetryCount opts)" by simp
  show ?case
    using "0.prems"(4) by (simp add: SafeElement_loop_passed [OF le])
next
  case (Suc k)
  have top: "sint (RetryCount opts) \<le> 9223372036854775807"
    using sint_lt [of "RetryCount opts"] by simp
  from Suc.prems(1,2) top have le: "sint i \<le> sint (RetryCount opts)"
    and small: "sint i < 9223372036854775807"
    by simp_all
  have fail: "element_failure opts (attempts p n) \<noteq> None" using Suc.prems(3) by force
  have next_i: "sint (i + 1) = int (Suc n)"
    using sint_succ [OF small] Suc.prems(1) by simp
  have next_k: "int (Suc n) + int k \<le> sint (RetryCount opts)"
    using Suc.prems(2) by simp
  have rest: "\<forall>j < k. element_failure opts (attempts p (Suc n + j)) \<noteq> None"
    using Suc.prems(3) by (metis Suc_less_eq add_Suc_shift)
  have pass: "element_failure opts (attempts p (Suc n + k)) = None"
    using Suc.prems(4) by simp
  show ?case
    using Suc.IH [OF next_i next_k rest pass] next_i
    by (cases k) (simp_all add: SafeElement_loop_failed [OF le fail])
qed


lemma SafeClick_loop_returns:
  assumes "sint (RetryCount opts) < 9223372036854775807"
    and "sint i = int n" and "int n + int k = sint (RetryCount opts)"
  shows "\<exists>r K. K \<le> k \<and>
           SafeClick_loop (Some p) selector opts i n lastErr tr =
             Some (r, tr @ (if 0 < sint i then [Sleep (RetryDelay opts)] else []) @
               attempts_from (steps (opts \<lparr> MustVisible := False, MustStable := True \<rparr>) selector [Click])
                 (RetryDelay opts) p n K)"
  using assms(2-)
proof (induction k arbitrary: i n lastErr tr)
  case 0
  then have le: "sint i \<le> sint (RetryCount opts)" and small: "sint i < 9223372036854775807"
    using assms(1) by simp_all
  have stop: "\<not> sint (i + 1) \<le> sint (RetryCount opts)"
    using sint_succ [OF small] "0.prems"(1,2) by simp
  show ?case
  proof (cases "click_failure (attempts p n) = None")
    case True
    then show ?thesis
      using stop by (simp add: SafeClick_loop_passed [OF le True] SafeClick_loop_done)
  next
    case False
    then show ?thesis
      using stop by (simp add: SafeClick_loop_failed [OF le False] SafeClick_loop_done)
  qed
next
  case (Suc k)
  then have le: "sint i \<le> sint (RetryCount opts)" and small: "sint i < 9223372036854775807"
    using assms(1) by simp_all
  have next_i: "sint (i + 1) = int (Suc n)"
    using sint_succ [OF small] Suc.prems(1) by simp
  have next_k: "int (Suc n) + int k = sint (RetryCount opts)"
    using Suc.prems(2) by simp
  let ?tr = "tr @ (if 0 < sint i then [Sleep (RetryDelay opts)] else []) @
      steps (opts \<lparr> MustVisible := False, MustStable := True \<rparr>) selector [Click] (attempts p n)"
  have go: "\<exists>r K. K \<le> Suc k \<and>
           SafeClick_loop (Some p) selector opts (i + 1) (Suc n) e ?tr =
             Some (r, tr @ (if 0 < sint i then [Sleep (RetryDelay opts)] else []) @
               attempts_from (steps (opts \<lparr> MustVisible := False, MustStable := True \<rparr>) selector [Click])
                 (RetryDelay opts) p n K)" for e
  proof -
    obtain r K where "K \<le> k" and
      "SafeClick_loop (Some p) selector opts (i + 1) (Suc n) e ?tr =
         Some (r, ?tr @ (if 0 < sint (i + 1) then [Sleep (RetryDelay opts)] else []) @
               attempts_from (steps (opts \<lparr> MustVisible := False, MustStable := True \<rparr>) selector [Click])
                 (RetryDelay opts) p (Suc n) K)"
      using Suc.IH [OF next_i next_k, of e ?tr] by blast
    then have "Suc K \<le> Suc k \<and>
         SafeClick_loop (Some p) selector opts (i + 1) (Suc n) e ?tr =
           Some (r, tr @ (if 0 < sint i then [Sleep (RetryDelay opts)] else []) @
               attempts_from (steps (opts \<lparr> MustVisible := False, MustStable := True \<rparr>) selector [Click])
                 (RetryDelay opts) p n (Suc K))"
      using next_i by simp
    then show ?thesis by blast
  qed
  show ?case
  proof (cases "click_failure (attempts p n) = None")
    case True
    show ?thesis
    proof (cases "lastErr = None")
      case True
      have "(0::nat) \<le> Suc k \<and> SafeClick_loop (Some p) selector opts i n lastErr tr =
          Some (Returned None, tr @ (if 0 < sint i then [Sleep (RetryDelay opts)] else []) @
               attempts_from (steps (opts \<lparr> MustVisible := False, MustStable := True \<rparr>) selector [Click])
                 (RetryDelay opts) p n 0)"
        using True by (simp add: SafeClick_loop_passed [OF le \<open>click_failure (attempts p n) = None\<close>])
      then show ?thesis by blast
    next
      case False
      then show ?thesis
        using go [of lastErr]
        by (auto simp: SafeClick_loop_passed [OF le \<open>click_failure (attempts p n) = None\<close>])
    qed
  next
    case False
    then show ?thesis
      using go [of "click_failure (attempts p n)"]
      by (simp add: SafeClick_loop_failed [OF le False])
  qed
qed

lemma SafeElement_loop_returns:
  assumes "sint (RetryCount opts) < 9223372036854775807"
    and "sint i = int n" and "int n + int k = sint (RetryCount opts)"
  shows "\<exists>r K. K \<le> k \<and>
           SafeElement_loop p selector opts i n lastErr tr =
             Some (r, tr @ (if 0 < sint i then [Sleep (RetryDelay opts)] else []) @
               attempts_from (steps opts selector []) (RetryDelay opts) p n K)"
proof (cases "\<exists>j \<le> k. element_failure opts (attempts p (n + j)) = None")
  case True
  then obtain j where j: "j \<le> k \<and> element_failure opts (attempts p (n + j)) = None"
    and least: "\<forall>m < j. \<not> (m \<le> k \<and> element_failure opts (attempts p (n + m)) = None)"
    using exists_least_iff [of "\<lambda>j. j \<le> k \<and> element_failure opts (attempts p (n + j)) = None"]
    by blast
  have before: "\<forall>m < j. element_failure opts (attempts p (n + m)) \<noteq> None"
    using least j by auto
  have room: "int n + int j \<le> sint (RetryCount opts)"
    using j assms(3) by simp
  have pass: "element_failure opts (attempts p (n + j)) = None" using j by simp
  have "j \<le> k \<and> SafeElement_loop p selector opts i n lastErr tr =
      Some (Returned (Some (projr (locate (attempts p (n + j)))),
              (if j = 0 then lastErr else element_failure opts (attempts p (n + j - 1)))),
            tr @ (if 0 < sint i then [Sleep (RetryDelay opts)] else []) @
            attempts_from (steps opts selector []) (RetryDelay opts) p n j)"
    using SafeElement_loop_first_pass [OF assms(2) room before pass, of selector lastErr tr] j
    by simp
  then show ?thesis by blast
next
  case False
  then have all: "\<forall>j \<le> k. element_failure opts (attempts p (n + j)) \<noteq> None" by simp
  have "k \<le> k \<and> SafeElement_loop p selector opts i n lastErr tr =
      Some (Returned (None, Some (Errorf ''all attempts to get element failed: %w'' PercentW
              (element_failure opts (attempts p (n + k))))),
            tr @ (if 0 < sint i then [Sleep (RetryDelay opts)] else []) @
            attempts_from (steps opts selector []) (RetryDelay opts) p n k)"
    using SafeElement_loop_exhausted [OF assms all, of selector lastErr tr] by simp
  then show ?thesis by blast
qed

section \<open>Exhausted retries\<close>

text \<open>
  C6. With a retry count \<open>N\<close> that is not negative and below the largest \<open>int\<close>, if every
  attempt fails then \<open>SafeClick\<close> and \<open>SafeElement\<close> each return, after exactly \<open>N + 1\<close>
  locate attempts and \<open>N\<close> sleeps, one aggregated error that wraps the failure of the last
  attempt only; when the locate step fails on every attempt that failure is
  "element not found".
\<close>

theorem retries_exhausted:
  assumes "0 \<le> sint (RetryCount opts)" and "sint (RetryCount opts) < 9223372036854775807"
  shows "((\<forall>i \<le> nat (sint (RetryCount opts)). click_failure (attempts p i) \<noteq> None) \<longrightarrow>
            (\<exists>tr. SafeClick (Some p) selector (Some opts) =
                    Some (Returned (Some (Errorf ''all click attempts failed: %w'' PercentW
                            (click_failure (attempts p (nat (sint (RetryCount opts))))))), tr)
                  \<and> locate_count tr = nat (sint (RetryCount opts)) + 1
                  \<and> sleep_count tr = nat (sint (RetryCount opts))))
       \<and> ((\<forall>i \<le> nat (sint (RetryCount opts)). element_failure opts (attempts p i) \<noteq> None) \<longrightarrow>
            (\<exists>tr. SafeElement (Some p) selector (Some opts) =
                    Some (Returned (None, Some (Errorf ''all attempts to get element failed: %w'' PercentW
                            (element_failure opts (attempts p (nat (sint (RetryCount opts))))))), tr)
                  \<and> locate_count tr = nat (sint (RetryCount opts)) + 1
                  \<and> sleep_count tr = nat (sint (RetryCount opts))))
       \<and> ((\<forall>i \<le> nat (sint (RetryCount opts)). isl (locate (attempts p i))) \<longrightarrow>
            map_option fst (SafeClick (Some p) selector (Some opts)) =
              Some (Returned (Some (Errorf ''all click attempts failed: %w'' PercentW
                (Some (Errorf ''element not found: %w'' PercentW
                   (Some (projl (locate (attempts p (nat (sint (RetryCount opts))))))))))))
            \<and> map_option fst (SafeElement (Some p) selector (Some opts)) =
              Some (Returned (None, Some (Errorf ''all attempts to get element failed: %w'' PercentW
                (Some (Errorf ''element not found: %w'' PercentW
                   (Some (projl (locate (attempts p (nat (sint (RetryCount opts)))))))))))))"
proof -
  let ?N = "nat (sint (RetryCount opts))"
  have start: "sint (0 :: 64 word) = int 0" by simp
  have span: "int 0 + int ?N = sint (RetryCount opts)" using assms(1) by simp
  have click: "\<exists>tr. SafeClick (Some p) selector (Some opts) =
                    Some (Returned (Some (Errorf ''all click attempts failed: %w'' PercentW
                            (click_failure (attempts p ?N)))), tr)
                  \<and> locate_count tr = ?N + 1 \<and> sleep_count tr = ?N"
    if "\<forall>i \<le> ?N. click_failure (attempts p i) \<noteq> None"
  proof -
    from that have all: "\<forall>j \<le> ?N. click_failure (attempts p (0 + j)) \<noteq> None" by simp
    show ?thesis
      using SafeClick_loop_exhausted [OF assms(2) start span all, of selector None "[]"]
      by (simp add: SafeClick_def attempts_from_counts steps_counts)
  qed
  have elem: "\<exists>tr. SafeElement (Some p) selector (Some opts) =
                    Some (Returned (None, Some (Errorf ''all attempts to get element failed: %w'' PercentW
                            (element_failure opts (attempts p ?N)))), tr)
                  \<and> locate_count tr = ?N + 1 \<and> sleep_count tr = ?N"
    if "\<forall>i \<le> ?N. element_failure opts (attempts p i) \<noteq> None"
  proof -
    from that have all: "\<forall>j \<le> ?N. element_failure opts (attempts p (0 + j)) \<noteq> None" by simp
    show ?thesis
      using SafeElement_loop_exhausted [OF assms(2) start span all, of selector None "[]"]
      by (simp add: SafeElement_def attempts_from_counts steps_counts)
  qed
  have lost: "click_failure a = Some (Errorf ''element not found: %w'' PercentW (Some (projl (locate a))))
      \<and> element_failure opts a = Some (Errorf ''element not found: %w'' PercentW (Some (projl (locate a))))"
    if "isl (locate a)" for a
    using that by (cases "locate a") (simp_all add: click_failure_def element_failure_def)
  have never: "map_option fst (SafeClick (Some p) selector (Some opts)) =
              Some (Returned (Some (Errorf ''all click attempts failed: %w'' PercentW
                (Some (Errorf ''element not found: %w'' PercentW
                   (Some (projl (locate (attempts p ?N)))))))))
            \<and> map_option fst (SafeElement (Some p) selector (Some opts)) =
              Some (Returned (None, Some (Errorf ''all attempts to get element failed: %w'' PercentW
                (Some (Errorf ''element not found: %w'' PercentW
                   (Some (projl (locate (attempts p ?N)))))))))"
    if h: "\<forall>i \<le> ?N. isl (locate (attempts p i))"
  proof -
    from h have c: "\<forall>i \<le> ?N. click_failure (attempts p i) \<noteq> None"
      and e: "\<forall>i \<le> ?N. element_failure opts (attempts p i) \<noteq> None"
      by (simp_all add: lost)
    from h have "isl (locate (attempts p ?N))" by simp
    with click [OF c] elem [OF e] show ?thesis by (auto simp: lost)
  qed
  show ?thesis using click elem never by blast
qed

theorem retries_exhausted_witness:
  "0 \<le> sint (RetryCount DefaultRodOptions)
   \<and> sint (RetryCount DefaultRodOptions) < 9223372036854775807
   \<and> click_failure (attempts unsteady_page 0) =
       Some (Errorf ''element not found: %w'' PercentW (Some (Foreign 10)))
   \<and> click_failure (attempts unsteady_page 1) \<noteq> None
   \<and> click_failure (attempts unsteady_page 2) \<noteq> None
   \<and> click_failure (attempts unsteady_page 3) =
       Some (Errorf ''element not stable: %w'' PercentW (Some (Foreign 23)))
   \<and> (\<exists>tr. SafeClick (Some unsteady_page) ''#submit'' (Some DefaultRodOptions) =
         Some (Returned (Some (Errorf ''all click attempts failed: %w'' PercentW
           (Some (Errorf ''element not stable: %w'' PercentW (Some (Foreign 23)))))), tr)
         \<and> locate_count tr = 4 \<and> sleep_count tr = 3)
   \<and> (\<exists>tr. SafeElement (Some unsteady_page) ''#submit'' (Some DefaultRodOptions) =
         Some (Returned (None, Some (Errorf ''all attempts to get element failed: %w'' PercentW
           (Some (Errorf ''element not stable: %w'' PercentW (Some (Foreign 23)))))), tr)
         \<and> locate_count tr = 4 \<and> sleep_count tr = 3)
   \<and> isl (locate (attempts fading_page 0)) \<and> isl (locate (attempts fading_page 1))
   \<and> isl (locate (attempts fading_page 2)) \<and> isl (locate (attempts fading_page 3))
   \<and> map_option fst (SafeClick (Some fading_page) ''#submit'' (Some DefaultRodOptions)) =
       Some (Returned (Some (Errorf ''all click attempts failed: %w'' PercentW
         (Some (Errorf ''element not found: %w'' PercentW (Some (Foreign 13)))))))
   \<and> map_option fst (SafeElement (Some fading_page) ''#submit'' (Some DefaultRodOptions)) =
       Some (Returned (None, Some (Errorf ''all attempts to get element failed: %w'' PercentW
         (Some (Errorf ''element not found: %w'' PercentW (Some (Foreign 13)))))))"
proof -
  have n: "nat (sint (RetryCount DefaultRodOptions)) = 3"
    by (simp add: DefaultRodOptions_def)
  have h0: "0 \<le> sint (RetryCount DefaultRodOptions)"
    and h1: "sint (RetryCount DefaultRodOptions) < 9223372036854775807"
    by (simp_all add: DefaultRodOptions_def)
  have c: "click_failure (attempts unsteady_page i) =
      (if i < 3 then Some (Errorf ''element not found: %w'' PercentW (Some (Foreign (10 + i))))
       else Some (Errorf ''element not stable: %w'' PercentW (Some (Foreign (20 + i)))))" for i
    by (simp add: unsteady_page_def click_failure_def)
  have e: "element_failure DefaultRodOptions (attempts unsteady_page i) =
      (if i < 3 then Some (Errorf ''element not found: %w'' PercentW (Some (Foreign (10 + i))))
       else Some (Errorf ''element not stable: %w'' PercentW (Some (Foreign (20 + i)))))" for i
    by (simp add: unsteady_page_def element_failure_def DefaultRodOptions_def)
  have f: "locate (attempts fading_page i) = Inl (Foreign (10 + i))" for i
    by (simp add: fading_page_def)
  show ?thesis
    using h0 h1 retries_exhausted [OF h0 h1, of unsteady_page "''#submit''"]
      retries_exhausted [OF h0 h1, of fading_page "''#submit''"]
    by (simp add: n c e f)
qed

text \<open>
  With the retry count at the largest \<open>int\<close> the loop condition always holds and the
  counter wraps: a call of \<open>SafeClick\<close> whose first attempt fails, and a call of
  \<open>SafeElement\<close> on a page where every attempt fails, never return.
\<close>

lemma SafeClick_loop_runs_forever:
  assumes "SafeClick_loop pg selector opts i n lastErr tr = Some y"
  shows "\<not> (sint (RetryCount opts) = 9223372036854775807 \<and> lastErr \<noteq> None \<and> pg \<noteq> None)"
proof (rule SafeClick_loop.raw_induct
        [where P = "\<lambda>pg selector opts i n lastErr tr y.
           \<not> (sint (RetryCount opts) = 9223372036854775807 \<and> lastErr \<noteq> None \<and> pg \<noteq> None)",
         OF _ assms], goal_cases)
  case (1 loop pg selector opts i n lastErr tr y)
  from 1(2) show ?case
    by (auto simp: sint_le_top split: if_splits option.splits sum.splits dest: 1(1))
qed

lemma SafeElement_loop_runs_forever:
  assumes "SafeElement_loop p selector opts i n lastErr tr = Some y"
  shows "\<not> (sint (RetryCount opts) = 9223372036854775807
            \<and> (\<forall>m. element_failure opts (attempts p m) \<noteq> None))"
proof (rule SafeElement_loop.raw_induct
        [where P = "\<lambda>p selector opts i n lastErr tr y.
           \<not> (sint (RetryCount opts) = 9223372036854775807
                \<and> (\<forall>m. element_failure opts (attempts p m) \<noteq> None))",
         OF _ assms], goal_cases)
  case (1 loop p selector opts i n lastErr tr y)
  show ?case
  proof
    assume h: "sint (RetryCount opts) = 9223372036854775807
                \<and> (\<forall>m. element_failure opts (attempts p m) \<noteq> None)"
    then have fail: "element_failure opts (attempts p n) \<noteq> None" by simp
    have le: "sint i \<le> sint (RetryCount opts)" using h by (simp add: sint_le_top)
    from 1(2) le fail obtain e tr' where "loop p selector opts (i + 1) (Suc n) e tr' = Some y"
      by (auto simp: element_failure_def split: if_splits sum.splits)
    from 1(1) [OF this] h show False by simp
  qed
qed

lemma SafeClick_never_returns:
  assumes "sint (RetryCount opts) = 9223372036854775807"
    and "click_failure (attempts p 0) \<noteq> None"
  shows "SafeClick (Some p) selector (Some opts) = None"
proof (cases "SafeClick (Some p) selector (Some opts)")
  case None
  then show ?thesis .
next
  case (Some y)
  have le: "sint (0 :: 64 word) \<le> sint (RetryCount opts)" using assms(1) by simp
  from Some have "SafeClick_loop (Some p) selector opts (0 + 1) (Suc 0) (click_failure (attempts p 0))
      ([] @ (if 0 < sint (0 :: 64 word) then [Sleep (RetryDelay opts)] else []) @
       steps (opts \<lparr> MustVisible := False, MustStable := True \<rparr>) selector [Click] (attempts p 0)) =
      Some y"
    by (simp add: SafeClick_def SafeClick_loop_failed [OF le assms(2), of selector None "[]"])
  from SafeClick_loop_runs_forever [OF this] assms show ?thesis by simp
qed

lemma SafeElement_never_returns:
  assumes "sint (RetryCount opts) = 9223372036854775807"
    and "\<forall>m. element_failure opts (attempts p m) \<noteq> None"
  shows "SafeElement (Some p) selector (Some opts) = None"
proof (cases "SafeElement (Some p) selector (Some opts)")
  case None
  then show ?thesis .
next
  case (Some y)
  then have "SafeElement_loop p selector opts 0 0 None [] = Some y"
    by (simp add: SafeElement_def)
  from SafeElement_loop_runs_forever [OF this] assms show ?thesis by simp
qed

section \<open>Visibility and stability waits\<close>

text \<open>
  C4, as stated: with both checks switched off, \<open>SafeClick\<close> acts right after the locate
  step without any wait, and with \<open>MustVisible\<close> it waits for visibility first. On a page
  whose element is there and stable, \<open>SafeClick\<close> calls \<open>WaitStable\<close> although both checks
  are off, and makes no call of \<open>WaitVisible\<close> under the default policy, which requires
  one.
\<close>

theorem SafeClick_ignores_check_flags:
  "SafeClick (Some ready_page) ''#submit'' (Some no_checks) =
     Some (Returned None, [Locate ''#submit'' 10000000000, WaitStable 200000000, Click])
   \<and> SafeClick (Some ready_page) ''#submit'' (Some DefaultRodOptions) =
     Some (Returned None, [Locate ''#submit'' 10000000000, WaitStable 200000000, Click])"
  by code_simp

text \<open>
  C4, amended. With both checks switched off, \<open>SafeElement\<close> returns the located element
  right after the first locate step that succeeds, having made no wait: its effects are
  the locate steps and the sleeps between them. Under any policy, \<open>SafeElement\<close> returns
  the element of the first attempt that passes, and its effects are those of the attempts
  made, each with the steps of the specification; with \<open>MustVisible\<close>, an attempt whose
  locate step succeeds goes on with \<open>WaitVisible\<close>, and every \<open>WaitStable\<close> comes directly
  after a \<open>WaitVisible\<close>. \<open>SafeClick\<close> does not read either flag: its effects are those of
  the specification's attempts under the policy with \<open>MustVisible\<close> off and \<open>MustStable\<close>
  on, so it makes no call of \<open>WaitVisible\<close> of its own, and calls \<open>WaitStable\<close> in every
  attempt whose locate step succeeds. What the driver's \<open>WaitStable\<close> does inside is not
  part of these effects.
\<close>

theorem waits_per_policy:
  "(\<not> MustVisible opts \<and> \<not> MustStable opts \<and> int k \<le> sint (RetryCount opts)
      \<and> (\<forall>j < k. isl (locate (attempts p j))) \<and> \<not> isl (locate (attempts p k)) \<longrightarrow>
      (\<exists>err. SafeElement (Some p) selector (Some opts) =
         Some (Returned (Some (projr (locate (attempts p k))), err),
               Locate selector (Timeout opts) #
               concat (replicate k [Sleep (RetryDelay opts), Locate selector (Timeout opts)]))))
   \<and> (int k \<le> sint (RetryCount opts)
        \<and> (\<forall>j < k. element_failure opts (attempts p j) \<noteq> None)
        \<and> element_failure opts (attempts p k) = None \<longrightarrow>
      (\<exists>err. SafeElement (Some p) selector (Some opts) =
         Some (Returned (Some (projr (locate (attempts p k))), err),
               run_events (steps opts selector []) (RetryDelay opts) p k)))
   \<and> (MustVisible opts \<and> \<not> isl (locate a) \<longrightarrow>
        take 2 (steps opts selector act a) = [Locate selector (Timeout opts), WaitVisible])
   \<and> (\<not> isl (locate a) \<longrightarrow>
        take 2 (steps (opts \<lparr> MustVisible := False, MustStable := True \<rparr>) selector act a) =
          [Locate selector (Timeout opts), WaitStable (StableDuration opts)])
   \<and> (0 \<le> sint (RetryCount opts) \<and> sint (RetryCount opts) < 9223372036854775807 \<longrightarrow>
        (\<exists>r tr K. SafeElement (Some p) selector (Some opts) = Some (r, tr)
           \<and> K \<le> nat (sint (RetryCount opts))
           \<and> tr = run_events (steps opts selector []) (RetryDelay opts) p K
           \<and> (MustVisible opts \<longrightarrow>
                 visible_before_stable tr
                 \<and> visible_wait_count tr = located_among p (locate_count tr)))
        \<and> (\<exists>r tr K. SafeClick (Some p) selector (Some opts) = Some (r, tr)
           \<and> K \<le> nat (sint (RetryCount opts))
           \<and> tr = run_events (steps (opts \<lparr> MustVisible := False, MustStable := True \<rparr>)
                                selector [Click]) (RetryDelay opts) p K
           \<and> WaitVisible \<notin> set tr
           \<and> stable_wait_count tr = located_among p (locate_count tr)))"
proof -
  have start: "sint (0 :: 64 word) = int 0" by simp
  have pass: "\<exists>err. SafeElement (Some p) selector (Some opts) =
         Some (Returned (Some (projr (locate (attempts p k))), err),
               run_events (steps opts selector []) (RetryDelay opts) p k)"
    if "int k \<le> sint (RetryCount opts)"
      and "\<forall>j < k. element_failure opts (attempts p j) \<noteq> None"
      and "element_failure opts (attempts p k) = None"
  proof -
    from that have room: "int 0 + int k \<le> sint (RetryCount opts)"
      and before: "\<forall>j < k. element_failure opts (attempts p (0 + j)) \<noteq> None"
      and here: "element_failure opts (attempts p (0 + k)) = None"
      by simp_all
    show ?thesis
      using SafeElement_loop_first_pass [OF start room before here, of selector None "[]"]
      by (simp add: SafeElement_def run_events_def)
  qed
  have plain: "\<exists>err. SafeElement (Some p) selector (Some opts) =
         Some (Returned (Some (projr (locate (attempts p k))), err),
               Locate selector (Timeout opts) #
               concat (replicate k [Sleep (RetryDelay opts), Locate selector (Timeout opts)]))"
    if off: "\<not> MustVisible opts" "\<not> MustStable opts"
      and "int k \<le> sint (RetryCount opts)"
      and "\<forall>j < k. isl (locate (attempts p j))" and "\<not> isl (locate (attempts p k))"
  proof -
    have one: "steps opts selector [] = (\<lambda>a. [Locate selector (Timeout opts)])"
      using steps_no_checks [OF off] by (intro ext)
    show ?thesis
      using pass that
      by (simp add: element_failure_no_checks [OF off] one run_events_def attempts_from_single)
  qed
  have first_two: "take 2 (steps opts selector act a) = [Locate selector (Timeout opts), WaitVisible]"
    if "MustVisible opts" and "\<not> isl (locate a)"
    using that by (simp add: steps_def)
  have first_two_click:
    "take 2 (steps (opts \<lparr> MustVisible := False, MustStable := True \<rparr>) selector act a) =
       [Locate selector (Timeout opts), WaitStable (StableDuration opts)]"
    if "\<not> isl (locate a)"
    using that by (simp add: steps_def)
  have every: "(\<exists>r tr K. SafeElement (Some p) selector (Some opts) = Some (r, tr)
           \<and> K \<le> nat (sint (RetryCount opts))
           \<and> tr = run_events (steps opts selector []) (RetryDelay opts) p K
           \<and> (MustVisible opts \<longrightarrow>
                 visible_before_stable tr
                 \<and> visible_wait_count tr = located_among p (locate_count tr)))
        \<and> (\<exists>r tr K. SafeClick (Some p) selector (Some opts) = Some (r, tr)
           \<and> K \<le> nat (sint (RetryCount opts))
           \<and> tr = run_events (steps (opts \<lparr> MustVisible := False, MustStable := True \<rparr>)
                                selector [Click]) (RetryDelay opts) p K
           \<and> WaitVisible \<notin> set tr
           \<and> stable_wait_count tr = located_among p (locate_count tr))"
    if range: "0 \<le> sint (RetryCount opts)" "sint (RetryCount opts) < 9223372036854775807"
  proof -
    have span: "int 0 + int (nat (sint (RetryCount opts))) = sint (RetryCount opts)"
      using range(1) by simp
    obtain r K where K: "K \<le> nat (sint (RetryCount opts))"
      and run: "SafeElement (Some p) selector (Some opts) =
                  Some (r, run_events (steps opts selector []) (RetryDelay opts) p K)"
      using SafeElement_loop_returns [OF range(2) start span, of p selector None "[]"]
      by (auto simp: SafeElement_def run_events_def)
    have vis: "visible_before_stable (run_events (steps opts selector []) (RetryDelay opts) p K)
        \<and> visible_wait_count (run_events (steps opts selector []) (RetryDelay opts) p K) =
            located_among p (locate_count (run_events (steps opts selector []) (RetryDelay opts) p K))"
      if "MustVisible opts"
      using that
      by (simp add: run_events_def visible_before_stable_def located_among_def
          attempts_from_follows attempts_from_visible attempts_from_counts
          steps_visible steps_counts del: located_from_simps)
    obtain r' K' where K': "K' \<le> nat (sint (RetryCount opts))"
      and run': "SafeClick (Some p) selector (Some opts) =
                  Some (r', run_events (steps (opts \<lparr> MustVisible := False, MustStable := True \<rparr>)
                                selector [Click]) (RetryDelay opts) p K')"
      using SafeClick_loop_returns [OF range(2) start span, of p selector None "[]"]
      by (auto simp: SafeClick_def run_events_def)
    have click: "WaitVisible \<notin> set (run_events (steps (opts \<lparr> MustVisible := False, MustStable := True \<rparr>)
                                selector [Click]) (RetryDelay opts) p K')
        \<and> stable_wait_count (run_events (steps (opts \<lparr> MustVisible := False, MustStable := True \<rparr>)
                                selector [Click]) (RetryDelay opts) p K') =
            located_among p (locate_count (run_events (steps (opts \<lparr> MustVisible := False, MustStable := True \<rparr>)
                                selector [Click]) (RetryDelay opts) p K'))"
      by (simp add: run_events_def located_among_def
          attempts_from_no_visible attempts_from_stable attempts_from_counts
          steps_click_policy steps_counts del: located_from_simps)
    show ?thesis
      using K run vis K' run' click by blast
  qed
  show ?thesis
    using pass plain first_two first_two_click every by blast
qed


theorem waits_per_policy_witness:
  "\<not> MustVisible no_checks \<and> \<not> MustStable no_checks
   \<and> int 1 \<le> sint (RetryCount no_checks)
   \<and> isl (locate (attempts late_page 0)) \<and> \<not> isl (locate (attempts late_page 1))
   \<and> (\<exists>err. SafeElement (Some late_page) ''#submit'' (Some no_checks) =
         Some (Returned (Some 7, err),
               [Locate ''#submit'' 10000000000, Sleep 500000000, Locate ''#submit'' 10000000000]))
   \<and> MustVisible DefaultRodOptions
   \<and> int 1 \<le> sint (RetryCount DefaultRodOptions)
   \<and> element_failure DefaultRodOptions (attempts late_page 0) \<noteq> None
   \<and> element_failure DefaultRodOptions (attempts late_page 1) = None
   \<and> (\<exists>err. SafeElement (Some late_page) ''#submit'' (Some DefaultRodOptions) =
         Some (Returned (Some 7, err),
               [Locate ''#submit'' 10000000000, Sleep 500000000, Locate ''#submit'' 10000000000,
                WaitVisible, WaitStable 200000000]))
   \<and> take 2 (steps DefaultRodOptions ''#submit'' [] found) =
         [Locate ''#submit'' 10000000000, WaitVisible]
   \<and> take 2 (steps (DefaultRodOptions \<lparr> MustVisible := False, MustStable := True \<rparr>)
         ''#submit'' [Click] found) = [Locate ''#submit'' 10000000000, WaitStable 200000000]
   \<and> 0 \<le> sint (RetryCount DefaultRodOptions)
   \<and> sint (RetryCount DefaultRodOptions) < 9223372036854775807
   \<and> (\<exists>r tr. SafeElement (Some late_page) ''#submit'' (Some DefaultRodOptions) = Some (r, tr)
         \<and> visible_before_stable tr
         \<and> visible_wait_count tr = located_among late_page (locate_count tr))
   \<and> (\<exists>r tr. SafeClick (Some late_page) ''#submit'' (Some DefaultRodOptions) = Some (r, tr)
         \<and> WaitVisible \<notin> set tr
         \<and> stable_wait_count tr = located_among late_page (locate_count tr))"
proof -
  have off: "\<not> MustVisible no_checks" "\<not> MustStable no_checks" "int 1 \<le> sint (RetryCount no_checks)"
    by (simp_all add: no_checks_def DefaultRodOptions_def)
  have on: "MustVisible DefaultRodOptions" "int 1 \<le> sint (RetryCount DefaultRodOptions)"
    "0 \<le> sint (RetryCount DefaultRodOptions)"
    "sint (RetryCount DefaultRodOptions) < 9223372036854775807"
    by (simp_all add: DefaultRodOptions_def)
  have late: "isl (locate (attempts late_page 0))" "\<not> isl (locate (attempts late_page 1))"
    "\<forall>j < 1. isl (locate (attempts late_page j))"
    "projr (locate (attempts late_page 1)) = 7"
    by (simp_all add: late_page_def missing_def found_def)
  have fails: "element_failure DefaultRodOptions (attempts late_page 0) \<noteq> None"
    "element_failure DefaultRodOptions (attempts late_page 1) = None"
    "\<forall>j < 1. element_failure DefaultRodOptions (attempts late_page j) \<noteq> None"
    by (simp_all add: late_page_def missing_def found_def element_failure_def)
  have there: "\<not> isl (locate found)"
    by (simp add: found_def)
  have nums: "Timeout no_checks = 10000000000" "RetryDelay no_checks = 500000000"
    "Timeout DefaultRodOptions = 10000000000" "RetryDelay DefaultRodOptions = 500000000"
    "StableDuration DefaultRodOptions = 200000000"
    by (simp_all add: no_checks_def DefaultRodOptions_def Second_def Millisecond_def
        Microsecond_def Nanosecond_def)
  have trace: "run_events (steps DefaultRodOptions ''#submit'' []) 500000000 late_page (Suc 0) =
      [Locate ''#submit'' 10000000000, Sleep 500000000, Locate ''#submit'' 10000000000,
       WaitVisible, WaitStable 200000000]"
    by (simp add: run_events_def steps_def late_page_def missing_def found_def nums on(1))
       (simp add: DefaultRodOptions_def)
  note quiet = waits_per_policy [of no_checks 1 late_page "''#submit''" found "[]"]
  note loud = waits_per_policy [of DefaultRodOptions 1 late_page "''#submit''" found "[]"]
  note press = waits_per_policy [of DefaultRodOptions 1 late_page "''#submit''" found "[Click]"]
  have a: "\<exists>err. SafeElement (Some late_page) ''#submit'' (Some no_checks) =
         Some (Returned (Some 7, err),
               [Locate ''#submit'' 10000000000, Sleep 500000000, Locate ''#submit'' 10000000000])"
  proof -
    from quiet off late(2,3)
    obtain err where "SafeElement (Some late_page) ''#submit'' (Some no_checks) =
         Some (Returned (Some (projr (locate (attempts late_page 1))), err),
               Locate ''#submit'' (Timeout no_checks) #
               concat (replicate 1 [Sleep (RetryDelay no_checks), Locate ''#submit'' (Timeout no_checks)]))"
      by blast
    then show ?thesis
      by (simp add: nums late_page_def found_def)
  qed
  have b: "\<exists>err. SafeElement (Some late_page) ''#submit'' (Some DefaultRodOptions) =
         Some (Returned (Some 7, err),
               [Locate ''#submit'' 10000000000, Sleep 500000000, Locate ''#submit'' 10000000000,
                WaitVisible, WaitStable 200000000])"
  proof -
    from loud on(2) fails(2,3)
    obtain err where "SafeElement (Some late_page) ''#submit'' (Some DefaultRodOptions) =
         Some (Returned (Some (projr (locate (attempts late_page 1))), err),
               run_events (steps DefaultRodOptions ''#submit'' []) (RetryDelay DefaultRodOptions)
                 late_page 1)"
      by blast
    then show ?thesis
      using late(4) by (simp add: nums trace)
  qed
  have c: "take 2 (steps DefaultRodOptions ''#submit'' [] found) =
         [Locate ''#submit'' 10000000000, WaitVisible]"
    using loud on(1) there by (simp add: nums)
  have d: "take 2 (steps (DefaultRodOptions \<lparr> MustVisible := False, MustStable := True \<rparr>)
         ''#submit'' [Click] found) = [Locate ''#submit'' 10000000000, WaitStable 200000000]"
    using press there by (simp add: nums)
  have e: "(\<exists>r tr. SafeElement (Some late_page) ''#submit'' (Some DefaultRodOptions) = Some (r, tr)
         \<and> visible_before_stable tr
         \<and> visible_wait_count tr = located_among late_page (locate_count tr))
     \<and> (\<exists>r tr. SafeClick (Some late_page) ''#submit'' (Some DefaultRodOptions) = Some (r, tr)
         \<and> WaitVisible \<notin> set tr
         \<and> stable_wait_count tr = located_among late_page (locate_count tr))"
    using loud on by blast
  show ?thesis
    using off on late(1,2) fails(1,2) a b c d e by simp
qed

section \<open>The deadline of the wrapped operation\<close>

lemma sint_times_Second:
  fixes t :: duration
  shows "sint (t * Second) = signed_take_bit 63 (sint t * 1000000000)"
  by (simp add: sint_word_ariths sint_Second)

lemma bound_arith:
  fixes x :: int
  shows "(- 9223372036854775808 \<le> x * 1000000000 \<and> x * 1000000000 < 9223372036854775808)
     \<longleftrightarrow> (- 9223372036 \<le> x \<and> x \<le> 9223372036)"
  by linarith

lemma sint_times_Second_exact:
  fixes t :: duration
  shows "sint (t * Second) = sint t * 1000000000 \<longleftrightarrow>
           - 9223372036 \<le> sint t \<and> sint t \<le> 9223372036"
proof -
  have "sint (t * Second) = sint t * 1000000000 \<longleftrightarrow>
          - (2 ^ 63) \<le> sint t * 1000000000 \<and> sint t * 1000000000 < (2 ^ 63 :: int)"
    by (simp only: sint_times_Second signed_take_bit_int_eq_self_iff)
  also have "\<dots> \<longleftrightarrow> - 9223372036 \<le> sint t \<and> sint t \<le> 9223372036"
    using bound_arith [of "sint t"] by simp
  finally show ?thesis .
qed

lemma RodOperationWrapper_trace_head:
  "\<exists>tr. snd (RodOperationWrapper w pg operation opts) =
     BoundedRun ((case opts of None \<Rightarrow> DefaultTimeoutDuration w
                  | Some opt \<Rightarrow> (case TimeoutDuration opt of
                       None \<Rightarrow> DefaultTimeoutDuration w | Some t \<Rightarrow> t)) * Second) # tr"
  by (cases opts) (simp_all add: RodOperationWrapper_def Let_def)

lemma bounded_run_limit_RodOperationWrapper:
  "bounded_run_limit (snd (RodOperationWrapper w pg operation opts)) =
     Some ((case opts of None \<Rightarrow> DefaultTimeoutDuration w
            | Some opt \<Rightarrow> (case TimeoutDuration opt of
                 None \<Rightarrow> DefaultTimeoutDuration w | Some t \<Rightarrow> t)) * Second)"
  using RodOperationWrapper_trace_head [of w pg operation opts] by auto

lemma ten_seconds: "(10 * Second :: duration) = 10000000000" "sint (10 * Second) = 10000000000"
  by (simp_all add: Second_def Millisecond_def Microsecond_def Nanosecond_def)

text \<open>
  C10, as stated: the deadline handed to the bounded runner is the configured
  \<open>TimeoutDuration\<close> scaled up by one billion. It fails for a caller who passes the
  duration \<open>10 * time.Second\<close>: the product leaves the range of \<open>int64\<close> and the deadline
  is negative.
\<close>

theorem wrapper_deadline_overflows:
  "bounded_run_limit (snd (RodOperationWrapper writable_world (Some ready_page) (Finishes 0 None)
      (Some \<lparr> TimeoutDuration = Some (10 * Second), Path = None, Name = None \<rparr>)))
     = Some 10000000000000000000
   \<and> sint (10000000000000000000 :: duration) = - 8446744073709551616
   \<and> sint (10 * Second :: duration) * 1000000000 = 10000000000000000000
   \<and> sint (10000000000000000000 :: duration) \<noteq> sint (10 * Second :: duration) * 1000000000"
  by (simp add: bounded_run_limit_RodOperationWrapper ten_seconds sint_Second
      Second_def Millisecond_def Microsecond_def Nanosecond_def)

text \<open>
  C10, amended. The deadline is \<open>TimeoutDuration * time.Second\<close> (the default duration when
  none is configured) in wrapping 64-bit arithmetic. It is the configured value scaled up
  by one billion exactly when that value lies between -9223372036 and 9223372036.
\<close>

theorem wrapper_deadline:
  "bounded_run_limit (snd (RodOperationWrapper w pg operation opts)) =
     Some ((case opts of None \<Rightarrow> DefaultTimeoutDuration w
            | Some opt \<Rightarrow> (case TimeoutDuration opt of
                 None \<Rightarrow> DefaultTimeoutDuration w | Some t \<Rightarrow> t)) * Second)
   \<and> sint (d * Second) = signed_take_bit 63 (sint d * 1000000000)
   \<and> (sint (d * Second) = sint d * 1000000000 \<longleftrightarrow>
        - 9223372036 \<le> sint d \<and> sint d \<le> 9223372036)"
proof -
  obtain tr where "snd (RodOperationWrapper w pg operation opts) =
     BoundedRun ((case opts of None \<Rightarrow> DefaultTimeoutDuration w
                  | Some opt \<Rightarrow> (case TimeoutDuration opt of
                       None \<Rightarrow> DefaultTimeoutDuration w | Some t \<Rightarrow> t)) * Second) # tr"
    using RodOperationWrapper_trace_head by blast
  then have "bounded_run_limit (snd (RodOperationWrapper w pg operation opts)) =
     Some ((case opts of None \<Rightarrow> DefaultTimeoutDuration w
            | Some opt \<Rightarrow> (case TimeoutDuration opt of
                 None \<Rightarrow> DefaultTimeoutDuration w | Some t \<Rightarrow> t)) * Second)"
    by simp
  then show ?thesis
    using sint_times_Second [of d] sint_times_Second_exact [of d] by blast
qed

theorem wrapper_deadline_witness:
  "bounded_run_limit (snd (RodOperationWrapper writable_world (Some ready_page) (Finishes 0 None)
      (Some \<lparr> TimeoutDuration = Some 5, Path = None, Name = None \<rparr>))) = Some (5 * Second)
   \<and> sint (5 * Second) = 5 * 1000000000"
  using wrapper_deadline [of writable_world "Some ready_page" "Finishes 0 None"
      "Some \<lparr> TimeoutDuration = Some 5, Path = None, Name = None \<rparr>" 5]
  by simp

section \<open>The screenshot of a failed operation\<close>

text \<open>
  C7, as stated: when the directory cannot be created, the original operation failure is
  not masked by the error returned. In an environment where no directory can be created
  the returned error wraps the directory error only; the operation's error \<open>Foreign 2\<close>
  is not on its chain.
\<close>

theorem directory_error_replaces_operation_error:
  "fst (RodOperationWrapper readonly_world (Some ready_page) (Finishes 0 (Some (Foreign 2)))
          (Some \<lparr> TimeoutDuration = Some 5, Path = Some ''out/shots'', Name = Some ''login'' \<rparr>)) =
     Returned (Some (Errorf ''failed to create screenshot directory: %w'' PercentW (Some (Foreign 13))))
   \<and> \<not> errors_Is (Errorf ''failed to create screenshot directory: %w'' PercentW (Some (Foreign 13)))
          (Foreign 2)"
  by code_simp

text \<open>
  C7, amended. When the operation fails before the deadline, \<open>RodOperationWrapper\<close> creates
  the directory, captures the page and writes the PNG to \<open>dir/name_timestamp.png\<close>, or
  \<open>dir/timestamp.png\<close> when no name is supplied, and returns the operation's error. When
  creating the directory or writing the file fails, it returns an error built from that
  I/O failure alone, in place of the operation's error.
\<close>

theorem screenshot_on_failure:
  assumes "operation = Finishes d (Some err)"
    and "limit = (case tmo of None \<Rightarrow> DefaultTimeoutDuration w | Some t \<Rightarrow> t) * Second"
    and "int d < sint limit"
    and "opts = Some \<lparr> TimeoutDuration = tmo, Path = pth, Name = nm \<rparr>"
    and "file = (case pth of None \<Rightarrow> DefaultScreenshotPath w | Some s \<Rightarrow> s) @ ''/'' @
                (case nm of None \<Rightarrow> now w | Some s \<Rightarrow> s @ ''_'' @ now w) @ ''.png''"
    and "dir = filepath_Dir w file"
  shows "(os_MkdirAll w dir = None \<and> shot p = Inr data \<and> os_WriteFile w file data = None \<longrightarrow>
            RodOperationWrapper w (Some p) operation opts =
              (Returned (Some err),
               [BoundedRun limit, MkdirAll dir, Screenshot, WriteFile file data]))
       \<and> (os_MkdirAll w dir = Some e \<longrightarrow>
            RodOperationWrapper w (Some p) operation opts =
              (Returned (Some (Errorf ''failed to create screenshot directory: %w'' PercentW (Some e))),
               [BoundedRun limit, MkdirAll dir]))
       \<and> (os_MkdirAll w dir = None \<and> shot p = Inr data \<and> os_WriteFile w file data = Some e \<longrightarrow>
            RodOperationWrapper w (Some p) operation opts =
              (Returned (Some (Errorf ''failed to save screenshot: %v'' PercentV (Some e))),
               [BoundedRun limit, MkdirAll dir, Screenshot, WriteFile file data]))"
proof -
  have run: "timeLimit (chan_first w) limit operation = Some err"
    using assms(1,3) by (simp add: timeLimit_failure_in_time)
  show ?thesis
    using run assms(2,4,5,6)
    by (simp add: RodOperationWrapper_def Let_def after_def)
qed

theorem screenshot_on_failure_witness:
  "RodOperationWrapper writable_world (Some ready_page) (Finishes 0 (Some (Foreign 2)))
      (Some \<lparr> TimeoutDuration = Some 5, Path = Some ''out/shots'', Name = Some ''login'' \<rparr>) =
     (Returned (Some (Foreign 2)),
      [BoundedRun 5000000000, MkdirAll ''out/shots'', Screenshot,
       WriteFile ''out/shots/login_2024-01-02_03-04-05.png'' [137, 80, 78, 71]])
   \<and> RodOperationWrapper readonly_world (Some ready_page) (Finishes 0 (Some (Foreign 2)))
      (Some \<lparr> TimeoutDuration = Some 5, Path = Some ''out/shots'', Name = None \<rparr>) =
     (Returned (Some (Errorf ''failed to create screenshot directory: %w'' PercentW (Some (Foreign 13)))),
      [BoundedRun 5000000000, MkdirAll ''out/shots''])
   \<and> RodOperationWrapper full_world (Some ready_page) (Finishes 0 (Some (Foreign 2)))
      (Some \<lparr> TimeoutDuration = Some 5, Path = Some ''out/shots'', Name = None \<rparr>) =
     (Returned (Some (Errorf ''failed to save screenshot: %v'' PercentV (Some (Foreign 28)))),
      [BoundedRun 5000000000, MkdirAll ''out/shots'', Screenshot,
       WriteFile ''out/shots/2024-01-02_03-04-05.png'' [137, 80, 78, 71]])"
proof -
  have five: "(5 * Second :: duration) = 5000000000"
    by (simp add: Second_def Millisecond_def Microsecond_def Nanosecond_def)
  have early: "int 0 < sint ((case Some 5 of None \<Rightarrow> DefaultTimeoutDuration w | Some t \<Rightarrow> t) * Second)"
    for w :: world
    by (simp add: five)
  have saved: "RodOperationWrapper writable_world (Some ready_page) (Finishes 0 (Some (Foreign 2)))
      (Some \<lparr> TimeoutDuration = Some 5, Path = Some ''out/shots'', Name = Some ''login'' \<rparr>) =
     (Returned (Some (Foreign 2)),
      [BoundedRun 5000000000, MkdirAll ''out/shots'', Screenshot,
       WriteFile ''out/shots/login_2024-01-02_03-04-05.png'' [137, 80, 78, 71]])"
    using screenshot_on_failure [where w = writable_world and data = "[137, 80, 78, 71]"
        and p = ready_page and pth = "Some ''out/shots''" and nm = "Some ''login''",
        OF refl refl early refl refl refl]
    by (simp add: five writable_world_def ready_page_def)
  have refused: "RodOperationWrapper readonly_world (Some ready_page) (Finishes 0 (Some (Foreign 2)))
      (Some \<lparr> TimeoutDuration = Some 5, Path = Some ''out/shots'', Name = None \<rparr>) =
     (Returned (Some (Errorf ''failed to create screenshot directory: %w'' PercentW (Some (Foreign 13)))),
      [BoundedRun 5000000000, MkdirAll ''out/shots''])"
    using screenshot_on_failure [where w = readonly_world and e = "Foreign 13"
        and p = ready_page and pth = "Some ''out/shots''" and nm = None,
        OF refl refl early refl refl refl]
    by (simp add: five writable_world_def readonly_world_def ready_page_def)
  have full: "RodOperationWrapper full_world (Some ready_page) (Finishes 0 (Some (Foreign 2)))
      (Some \<lparr> TimeoutDuration = Some 5, Path = Some ''out/shots'', Name = None \<rparr>) =
     (Returned (Some (Errorf ''failed to save screenshot: %v'' PercentV (Some (Foreign 28)))),
      [BoundedRun 5000000000, MkdirAll ''out/shots'', Screenshot,
       WriteFile ''out/shots/2024-01-02_03-04-05.png'' [137, 80, 78, 71]])"
    using screenshot_on_failure [where w = full_world and data = "[137, 80, 78, 71]"
        and e = "Foreign 28" and p = ready_page and pth = "Some ''out/shots''" and nm = None,
        OF refl refl early refl refl refl]
    by (simp add: five writable_world_def full_world_def ready_page_def)
  show ?thesis using saved refused full by simp
qed

end
